theory Spec2Isabelle
  imports Complex_Main
begin

section \<open>Data model\<close>

text \<open>
  The trading engine of \<^verbatim>\<open>stockfish/trader.py\<close> and the helper class of
  \<^verbatim>\<open>stockfish/utils.py\<close>. Python integers are \<open>int\<close>. Python floats (the results
  of true division: volume-weighted prices and moving averages) are modelled as \<open>real\<close>
  with exact arithmetic; rounding is outside the model. A dictionary that the code
  iterates over is an association list in insertion order (a well-formed dictionary
  has distinct keys); a dictionary that is only read and written by key is a map.
  Every exception the code can raise is a value \<open>Inl e\<close> of a sum type.
\<close>

datatype py_error = TypeError | IndexError | KeyError | ZeroDivisionError | ValueError
  | UnboundLocalError

type_synonym book = "(int \<times> int) list"

record order_depth =
  buy_orders :: book
  sell_orders :: book

datatype order = Order (order_symbol: string) (order_price: int) (order_quantity: int)

record trading_state =
  order_depths :: "(string \<times> order_depth) list"
  position :: "string \<rightharpoonup> int"

record trader =
  position_limit :: "string \<rightharpoonup> int"
  ask_price :: "string \<rightharpoonup> int"
  bid_price :: "string \<rightharpoonup> int"
  vwap_bid_prices :: "string \<rightharpoonup> real list"
  vwap_ask_prices :: "string \<rightharpoonup> real list"
  large_ask_averages :: "string \<rightharpoonup> real list"
  small_ask_averages :: "string \<rightharpoonup> real list"
  large_bid_averages :: "string \<rightharpoonup> real list"
  small_bid_averages :: "string \<rightharpoonup> real list"
  window_size_small :: int
  window_size_large :: int

text \<open>\<^verbatim>\<open>Trader.__init__\<close>.\<close>

definition Trader_init :: trader where
  "Trader_init =
     \<lparr>position_limit = [''PEARLS'' \<mapsto> 20, ''BANANAS'' \<mapsto> 20],
      ask_price = Map.empty,
      bid_price = Map.empty,
      vwap_bid_prices = Map.empty,
      vwap_ask_prices = Map.empty,
      large_ask_averages = Map.empty,
      small_ask_averages = Map.empty,
      large_bid_averages = Map.empty,
      small_bid_averages = Map.empty,
      window_size_small = 100,
      window_size_large = 500\<rparr>"

section \<open>Python primitives\<close>

text \<open>True division \<^verbatim>\<open>a / b\<close> of two integers: raises on a zero divisor.\<close>

definition py_truediv :: "int \<Rightarrow> int \<Rightarrow> py_error + real" where
  "py_truediv a b = (if b = 0 then Inl ZeroDivisionError else Inr (real_of_int a / real_of_int b))"

text \<open>Subscription \<^verbatim>\<open>d[k]\<close> of a dictionary held as an association list.\<close>

definition dict_get :: "('k \<times> 'v) list \<Rightarrow> 'k \<Rightarrow> py_error + 'v" where
  "dict_get d k = (case map_of d k of None \<Rightarrow> Inl KeyError | Some v \<Rightarrow> Inr v)"

text \<open>
  Indexing \<^verbatim>\<open>xs[i]\<close> of a list, where a negative index counts from the end, and the
  slice \<^verbatim>\<open>xs[i:]\<close>, which clamps its start instead of raising.
\<close>

definition py_index :: "'a list \<Rightarrow> int \<Rightarrow> py_error + 'a" where
  "py_index xs i =
     (let j = (if i < 0 then int (length xs) + i else i) in
      if j < 0 \<or> int (length xs) \<le> j then Inl IndexError else Inr (xs ! nat j))"

definition py_slice_from :: "'a list \<Rightarrow> int \<Rightarrow> 'a list" where
  "py_slice_from xs i = (if i < 0 then drop (nat (int (length xs) + i)) xs else drop (nat i) xs)"

text \<open>\<^verbatim>\<open>d[k].append(v)\<close> on a dictionary of lists held as a map.\<close>

definition dict_append :: "('k \<rightharpoonup> 'v list) \<Rightarrow> 'k \<Rightarrow> 'v \<Rightarrow> py_error + ('k \<rightharpoonup> 'v list)" where
  "dict_append d k v = (case d k of None \<Rightarrow> Inl KeyError | Some xs \<Rightarrow> Inr (d(k \<mapsto> xs @ [v])))"

section \<open>Order book features\<close>

text \<open>
  The loop of \<^verbatim>\<open>get_vwap\<close>: \<^verbatim>\<open>for price in orders\<close> runs over the keys, looks
  each quantity up and accumulates the two sums.
\<close>

fun vwap_loop :: "book \<Rightarrow> int list \<Rightarrow> int \<Rightarrow> int \<Rightarrow> py_error + (int \<times> int)" where
  "vwap_loop orders [] weighted_sum quantity_sum = Inr (weighted_sum, quantity_sum)"
| "vwap_loop orders (p # ps) weighted_sum quantity_sum =
     (case dict_get orders p of
        Inl e \<Rightarrow> Inl e
      | Inr quantity \<Rightarrow>
          vwap_loop orders ps (weighted_sum + p * quantity) (quantity_sum + quantity))"

definition get_vwap :: "book \<Rightarrow> py_error + real" where
  "get_vwap orders =
     (case vwap_loop orders (map fst orders) 0 0 of
        Inl e \<Rightarrow> Inl e
      | Inr (weighted_sum, quantity_sum) \<Rightarrow>
          if quantity_sum \<noteq> 0 then py_truediv weighted_sum quantity_sum else Inr 0)"


text \<open>
  \<^verbatim>\<open>get_best_bid\<close> and \<^verbatim>\<open>get_best_ask\<close> of trader.py return the pair
  \<^verbatim>\<open>(None, None)\<close> on an empty side, and otherwise the extreme price with the
  quantity stored under it.
\<close>

definition get_best_bid :: "order_depth \<Rightarrow> py_error + (int option \<times> int option)" where
  "get_best_bid order_depth =
     (if length (buy_orders order_depth) = 0 then Inr (None, None)
      else
        let best_bid = Max (set (map fst (buy_orders order_depth))) in
        case dict_get (buy_orders order_depth) best_bid of
          Inl e \<Rightarrow> Inl e
        | Inr best_bid_volume \<Rightarrow> Inr (Some best_bid, Some best_bid_volume))"

definition get_best_ask :: "order_depth \<Rightarrow> py_error + (int option \<times> int option)" where
  "get_best_ask order_depth =
     (if length (sell_orders order_depth) = 0 then Inr (None, None)
      else
        let best_ask = Min (set (map fst (sell_orders order_depth))) in
        case dict_get (sell_orders order_depth) best_ask of
          Inl e \<Rightarrow> Inl e
        | Inr best_ask_volume \<Rightarrow> Inr (Some best_ask, Some best_ask_volume))"

text \<open>
  \<^verbatim>\<open>Util.get_best_bid\<close> and \<^verbatim>\<open>Util.get_best_ask\<close> of utils.py. The ask version
  negates the stored quantity.
\<close>

definition Util_get_best_bid :: "order_depth \<Rightarrow> py_error + (int option \<times> int option)" where
  "Util_get_best_bid order_depth =
     (if length (buy_orders order_depth) = 0 then Inr (None, None)
      else
        let best_bid = Max (set (map fst (buy_orders order_depth))) in
        case dict_get (buy_orders order_depth) best_bid of
          Inl e \<Rightarrow> Inl e
        | Inr best_bid_volume \<Rightarrow> Inr (Some best_bid, Some best_bid_volume))"

definition Util_get_best_ask :: "order_depth \<Rightarrow> py_error + (int option \<times> int option)" where
  "Util_get_best_ask order_depth =
     (if length (sell_orders order_depth) = 0 then Inr (None, None)
      else
        let best_ask = Min (set (map fst (sell_orders order_depth))) in
        case dict_get (sell_orders order_depth) best_ask of
          Inl e \<Rightarrow> Inl e
        | Inr stored \<Rightarrow> Inr (Some best_ask, Some (- stored)))"

section \<open>Order builders\<close>

text \<open>
  \<^verbatim>\<open>place_buy_order\<close> and \<^verbatim>\<open>place_sell_order\<close> append to the list \<^verbatim>\<open>orders\<close>
  in place; the model returns the extended list. The \<^verbatim>\<open>print\<close> call has no effect on
  the orders and is left out.
\<close>

definition place_buy_order :: "string \<Rightarrow> order list \<Rightarrow> int \<Rightarrow> int \<Rightarrow> order list" where
  "place_buy_order product orders price quantity =
     (let quantity = \<bar>quantity\<bar> in orders @ [Order product price quantity])"

definition place_sell_order :: "string \<Rightarrow> order list \<Rightarrow> int \<Rightarrow> int \<Rightarrow> order list" where
  "place_sell_order product orders price quantity =
     (let quantity = \<bar>quantity\<bar> in orders @ [Order product price (- quantity)])"

text \<open>
  The loop of \<^verbatim>\<open>place_buy_orders_up_to\<close> over \<^verbatim>\<open>range(start, finish + 1)\<close>. The
  result \<open>Inr\<close> is the order list when the function returns, from the \<^verbatim>\<open>return\<close>
  inside the loop or from the end of the range.
\<close>

fun buy_orders_up_to_loop ::
  "string \<Rightarrow> book \<Rightarrow> int list \<Rightarrow> order list \<Rightarrow> int \<Rightarrow> py_error + order list" where
  "buy_orders_up_to_loop product sells [] orders quantity = Inr orders"
| "buy_orders_up_to_loop product sells (price # rest) orders quantity =
     (if price \<in> set (map fst sells) then
        (case dict_get sells price of
           Inl e \<Rightarrow> Inl e
         | Inr stored \<Rightarrow>
             (let best_ask_volume = \<bar>stored\<bar>;
                  quantity = min quantity best_ask_volume;
                  orders = place_buy_order product orders price quantity;
                  quantity = quantity - best_ask_volume
              in if quantity \<le> 0 then Inr orders
                 else buy_orders_up_to_loop product sells rest orders quantity))
      else buy_orders_up_to_loop product sells rest orders quantity)"

definition place_buy_orders_up_to ::
  "string \<Rightarrow> order list \<Rightarrow> int \<Rightarrow> order_depth \<Rightarrow> py_error + order list" where
  "place_buy_orders_up_to product orders quantity order_depth =
     (let quantity = \<bar>quantity\<bar> in
      if sell_orders order_depth = [] then Inl ValueError
      else
        let start = Min (set (map fst (sell_orders order_depth)));
            finish = Max (set (map fst (sell_orders order_depth)))
        in buy_orders_up_to_loop product (sell_orders order_depth) [start..finish] orders quantity)"

section \<open>Moving averages and crossover signals\<close>

definition get_moving_average :: "real list \<Rightarrow> int \<Rightarrow> py_error + real" where
  "get_moving_average prices window_size =
     (let window_size = min (int (length prices)) window_size in
      if window_size = 0 then Inl ZeroDivisionError
      else Inr (sum_list (py_slice_from prices (- window_size)) / real_of_int window_size))"

definition get_crossover_data ::
  "real list \<Rightarrow> real list \<Rightarrow> py_error + (real \<times> real \<times> real \<times> real)" where
  "get_crossover_data large_averages small_averages =
     (case py_index large_averages (- 1) of
        Inl e \<Rightarrow> Inl e
      | Inr cur_roc_large \<Rightarrow>
     (case py_index small_averages (- 1) of
        Inl e \<Rightarrow> Inl e
      | Inr cur_roc_small \<Rightarrow>
     (case py_index large_averages (- 2) of
        Inl e \<Rightarrow> Inl e
      | Inr past_roc_large \<Rightarrow>
     (case py_index small_averages (- 2) of
        Inl e \<Rightarrow> Inl e
      | Inr past_roc_small \<Rightarrow>
          Inr (cur_roc_large, cur_roc_small, past_roc_large, past_roc_small)))))"

definition sell_signal :: "trader \<Rightarrow> string \<Rightarrow> py_error + bool" where
  "sell_signal self product =
     (case large_bid_averages self product of
        None \<Rightarrow> Inl KeyError
      | Some large_averages \<Rightarrow>
     (case small_bid_averages self product of
        None \<Rightarrow> Inl KeyError
      | Some small_averages \<Rightarrow>
          if int (length large_averages) < window_size_small self then Inr False
          else
            (case get_crossover_data large_averages small_averages of
               Inl e \<Rightarrow> Inl e
             | Inr (cur_roc_large, cur_roc_small, past_roc_large, past_roc_small) \<Rightarrow>
                 Inr (cur_roc_large > cur_roc_small \<and> past_roc_large < past_roc_small))))"

definition buy_signal :: "trader \<Rightarrow> string \<Rightarrow> py_error + bool" where
  "buy_signal self product =
     (case large_ask_averages self product of
        None \<Rightarrow> Inl KeyError
      | Some large_averages \<Rightarrow>
     (case small_ask_averages self product of
        None \<Rightarrow> Inl KeyError
      | Some small_averages \<Rightarrow>
          if int (length large_averages) < window_size_small self then Inr False
          else
            (case get_crossover_data large_averages small_averages of
               Inl e \<Rightarrow> Inl e
             | Inr (cur_roc_large, cur_roc_small, past_roc_large, past_roc_small) \<Rightarrow>
                 Inr (cur_roc_large < cur_roc_small \<and> past_roc_large > past_roc_small))))"

definition init_list :: "string \<Rightarrow> (string \<rightharpoonup> 'a list) \<Rightarrow> (string \<rightharpoonup> 'a list)" where
  "init_list product lst = (case lst product of None \<Rightarrow> lst(product \<mapsto> []) | Some xs \<Rightarrow> lst)"

definition not_enough_data :: "trader \<Rightarrow> string \<Rightarrow> (string \<rightharpoonup> real list) \<Rightarrow> py_error + bool" where
  "not_enough_data self product prices =
     (case prices product of
        None \<Rightarrow> Inl KeyError
      | Some xs \<Rightarrow> Inr (int (length xs) < window_size_large self))"

text \<open>
  \<^verbatim>\<open>Trader.order_by_vwap\<close> mutates the three dictionaries it is given; the model
  returns them with the order list. In \<^verbatim>\<open>run\<close> the two callables close over the
  trader and over \<^verbatim>\<open>orders\<close>: \<^verbatim>\<open>order_condition\<close> reads the same dictionaries
  of averages that the call has just extended, so here it takes them as arguments, and
  \<^verbatim>\<open>place_order_function\<close> takes the order list it appends to.
\<close>

definition order_by_vwap ::
  "trader \<Rightarrow> string \<Rightarrow> (string \<rightharpoonup> real list) \<Rightarrow> (string \<rightharpoonup> real list) \<Rightarrow> (string \<rightharpoonup> real list) \<Rightarrow>
   book \<Rightarrow> ((string \<rightharpoonup> real list) \<Rightarrow> (string \<rightharpoonup> real list) \<Rightarrow> py_error + bool) \<Rightarrow>
   (order list \<Rightarrow> order list) \<Rightarrow> order list \<Rightarrow>
   py_error + ((string \<rightharpoonup> real list) \<times> (string \<rightharpoonup> real list) \<times> (string \<rightharpoonup> real list) \<times> order list)" where
  "order_by_vwap self product prices large_averages small_averages book
       order_condition place_order_function orders =
     (let prices = init_list product prices;
          large_averages = init_list product large_averages;
          small_averages = init_list product small_averages
      in
      case get_vwap book of
        Inl e \<Rightarrow> Inl e
      | Inr vwap \<Rightarrow>
     (case dict_append prices product vwap of
        Inl e \<Rightarrow> Inl e
      | Inr prices \<Rightarrow>
     (case not_enough_data self product prices of
        Inl e \<Rightarrow> Inl e
      | Inr True \<Rightarrow> Inr (prices, large_averages, small_averages, orders)
      | Inr False \<Rightarrow>
     (case prices product of
        None \<Rightarrow> Inl KeyError
      | Some series \<Rightarrow>
     (case get_moving_average series (window_size_large self) of
        Inl e \<Rightarrow> Inl e
      | Inr large_average \<Rightarrow>
     (case dict_append large_averages product large_average of
        Inl e \<Rightarrow> Inl e
      | Inr large_averages \<Rightarrow>
     (case get_moving_average series (window_size_small self) of
        Inl e \<Rightarrow> Inl e
      | Inr small_average \<Rightarrow>
     (case dict_append small_averages product small_average of
        Inl e \<Rightarrow> Inl e
      | Inr small_averages \<Rightarrow>
     (case order_condition large_averages small_averages of
        Inl e \<Rightarrow> Inl e
      | Inr fire \<Rightarrow>
          Inr (prices, large_averages, small_averages,
               if fire then place_order_function orders else orders))))))))))"

section \<open>The entry point\<close>

text \<open>
  The body of the loop of \<^verbatim>\<open>Trader.run\<close> for one product. Lines 40 to 43 negate
  and compare the values returned by \<^verbatim>\<open>get_best_ask\<close> and \<^verbatim>\<open>get_best_bid\<close>
  without a test for \<^verbatim>\<open>None\<close>: each of these operations raises \<^verbatim>\<open>TypeError\<close>
  on \<^verbatim>\<open>None\<close>. The result \<open>Inl e\<close> stands for the exception alone: what the
  trader object has been assigned before the exception is not part of it, and the
  properties below speak of the calls that return.
\<close>

definition run_body ::
  "trader \<Rightarrow> trading_state \<Rightarrow> string \<Rightarrow> order_depth \<Rightarrow> py_error + (trader \<times> order list)" where
  "run_body self state product order_depth =
     (let orders = [];
          position = (case position state product of None \<Rightarrow> 0 | Some v \<Rightarrow> v);
          position_limit = (case position_limit self product of None \<Rightarrow> 0 | Some v \<Rightarrow> v);
          buy_volume = position_limit - position;
          sell_volume = position_limit + position
      in
      case get_best_ask order_depth of
        Inl e \<Rightarrow> Inl e
      | Inr (best_ask, best_ask_volume) \<Rightarrow>
     (case get_best_bid order_depth of
        Inl e \<Rightarrow> Inl e
      | Inr (best_bid, best_bid_volume) \<Rightarrow>
     (case best_ask_volume of
        None \<Rightarrow> Inl TypeError
      | Some stored_ask_volume \<Rightarrow>
     (let best_ask_volume = min (- stored_ask_volume) buy_volume in
      case best_bid_volume of
        None \<Rightarrow> Inl TypeError
      | Some stored_bid_volume \<Rightarrow>
     (let best_bid_volume = min stored_bid_volume sell_volume in
      case best_ask of
        None \<Rightarrow> Inl TypeError
      | Some best_ask \<Rightarrow>
     (let self = self\<lparr>ask_price := (ask_price self)
            (product \<mapsto> min (case ask_price self product of None \<Rightarrow> best_ask | Some a \<Rightarrow> a) best_ask)\<rparr>
      in
      case best_bid of
        None \<Rightarrow> Inl TypeError
      | Some best_bid \<Rightarrow>
     (let self = self\<lparr>bid_price := (bid_price self)
            (product \<mapsto> max (case bid_price self product of None \<Rightarrow> best_bid | Some b \<Rightarrow> b) best_bid)\<rparr>
      in
      if product = ''PEARLS'' then
        (case ask_price self product of
           None \<Rightarrow> Inl KeyError
         | Some ask \<Rightarrow>
        (case bid_price self product of
           None \<Rightarrow> Inl KeyError
         | Some bid \<Rightarrow>
             if ask < bid then
               Inr (self, place_sell_order product
                            (place_buy_order product orders ask buy_volume) bid sell_volume)
             else Inr (self, orders)))
      else if product = ''BANANAS'' then
        (case order_by_vwap self product
                (vwap_bid_prices self) (large_bid_averages self) (small_bid_averages self)
                (buy_orders order_depth)
                (\<lambda>large small.
                   sell_signal (self\<lparr>large_bid_averages := large, small_bid_averages := small\<rparr>) product)
                (\<lambda>orders. place_sell_order product orders best_bid best_bid_volume)
                orders of
           Inl e \<Rightarrow> Inl e
         | Inr (prices, large, small, orders) \<Rightarrow>
        (let self = self\<lparr>vwap_bid_prices := prices,
                          large_bid_averages := large, small_bid_averages := small\<rparr>
         in
         case order_by_vwap self product
                (vwap_ask_prices self) (large_ask_averages self) (small_ask_averages self)
                (sell_orders order_depth)
                (\<lambda>large small.
                   buy_signal (self\<lparr>large_ask_averages := large, small_ask_averages := small\<rparr>) product)
                (\<lambda>orders. place_buy_order product orders best_ask best_ask_volume)
                orders of
           Inl e \<Rightarrow> Inl e
         | Inr (prices, large, small, orders) \<Rightarrow>
             Inr (self\<lparr>vwap_ask_prices := prices,
                       large_ask_averages := large, small_ask_averages := small\<rparr>, orders)))
      else Inr (self, orders))))))))"

text \<open>
  The loop of \<^verbatim>\<open>Trader.run\<close> over \<^verbatim>\<open>state.order_depths.items()\<close>. The last
  component is the local variable \<^verbatim>\<open>orders\<close>, unbound until the first iteration.
\<close>

fun run_loop ::
  "trader \<Rightarrow> trading_state \<Rightarrow> (string \<times> order_depth) list \<Rightarrow> (string \<rightharpoonup> order list) \<Rightarrow>
   order list option \<Rightarrow> py_error + (trader \<times> (string \<rightharpoonup> order list) \<times> order list option)" where
  "run_loop self state [] result last_orders = Inr (self, result, last_orders)"
| "run_loop self state ((product, order_depth) # rest) result last_orders =
     (case run_body self state product order_depth of
        Inl e \<Rightarrow> Inl e
      | Inr (self', orders) \<Rightarrow>
          run_loop self' state rest (result(product \<mapsto> orders)) (Some orders))"

text \<open>
  \<^verbatim>\<open>Trader.run\<close>. After the loop, \<^verbatim>\<open>logger.flush(state, orders)\<close> reads the
  local \<^verbatim>\<open>orders\<close>, which raises when the loop has not run; the printing itself
  belongs to the harness and is not modelled.
\<close>

definition run :: "trader \<Rightarrow> trading_state \<Rightarrow> py_error + (trader \<times> (string \<rightharpoonup> order list))" where
  "run self state =
     (case run_loop self state (order_depths state) Map.empty None of
        Inl e \<Rightarrow> Inl e
      | Inr (self', result, last_orders) \<Rightarrow>
          (case last_orders of
             None \<Rightarrow> Inl UnboundLocalError
           | Some orders \<Rightarrow> Inr (self', result)))"


text \<open>The trader after lines 42 and 43 of \<^verbatim>\<open>run\<close>, for best prices \<open>a\<close> and \<open>b\<close>.\<close>

definition tightened :: "trader \<Rightarrow> string \<Rightarrow> int \<Rightarrow> int \<Rightarrow> trader" where
  "tightened self product a b =
     self\<lparr>ask_price := (ask_price self)
              (product \<mapsto> min (case ask_price self product of None \<Rightarrow> a | Some x \<Rightarrow> x) a),
          bid_price := (bid_price self)
              (product \<mapsto> max (case bid_price self product of None \<Rightarrow> b | Some x \<Rightarrow> x) b)\<rparr>"

text \<open>
  The relation between a trader and a later state of it in which every recorded ask
  floor is at most, and every recorded bid ceiling at least, what it was.
\<close>

definition tightens :: "trader \<Rightarrow> trader \<Rightarrow> bool" where
  "tightens self self' \<longleftrightarrow>
     position_limit self' = position_limit self
     \<and> (\<forall>p a. ask_price self p = Some a \<longrightarrow> (\<exists>a'. ask_price self' p = Some a' \<and> a' \<le> a))
     \<and> (\<forall>p b. bid_price self p = Some b \<longrightarrow> (\<exists>b'. bid_price self' p = Some b' \<and> b \<le> b'))"



section \<open>Volume-weighted average price\<close>





section \<open>Best bid and best ask\<close>

lemma dict_get_key:
  "k \<in> set (map fst d) \<Longrightarrow> \<exists>v. map_of d k = Some v \<and> (k, v) \<in> set d \<and> dict_get d k = Inr v"
proof -
  assume "k \<in> set (map fst d)"
  then obtain v where v: "map_of d k = Some v"
    by (metis map_of_eq_None_iff not_Some_eq set_map)
  then have "(k, v) \<in> set d"
    by (rule map_of_SomeD)
  with v show ?thesis
    by (simp add: dict_get_def)
qed

lemma min_key_in: "d \<noteq> [] \<Longrightarrow> Min (set (map fst d)) \<in> set (map fst d)"
  by (rule Min_in) simp_all

lemma max_key_in: "d \<noteq> [] \<Longrightarrow> Max (set (map fst d)) \<in> set (map fst d)"
  by (rule Max_in) simp_all

text \<open>
  Claim C9, as the code has it. On a non-empty sell side whose quantities are stored
  negative, both functions return the minimum sell price. \<^verbatim>\<open>Util.get_best_ask\<close>
  returns the quantity under it as a positive magnitude; \<^verbatim>\<open>get_best_ask\<close> of
  trader.py returns it as stored, so negative. On an empty sell side both return the
  absent pair.
\<close>

theorem get_best_ask_min_price:
  "(sell_orders order_depth = [] \<longrightarrow>
      get_best_ask order_depth = Inr (None, None) \<and>
      Util_get_best_ask order_depth = Inr (None, None))
   \<and> (sell_orders order_depth \<noteq> [] \<and> (\<forall>(p, q) \<in> set (sell_orders order_depth). q < 0) \<longrightarrow>
      (\<exists>q. (Min (set (map fst (sell_orders order_depth))), q) \<in> set (sell_orders order_depth)
          \<and> q < 0
          \<and> get_best_ask order_depth =
              Inr (Some (Min (set (map fst (sell_orders order_depth)))), Some q)
          \<and> Util_get_best_ask order_depth =
              Inr (Some (Min (set (map fst (sell_orders order_depth)))), Some (- q))
          \<and> 0 < - q))"
proof (intro conjI impI)
  assume "sell_orders order_depth = []"
  then show "get_best_ask order_depth = Inr (None, None)"
    by (simp add: get_best_ask_def)
next
  assume "sell_orders order_depth = []"
  then show "Util_get_best_ask order_depth = Inr (None, None)"
    by (simp add: Util_get_best_ask_def)
next
  let ?d = "sell_orders order_depth"
  let ?m = "Min (set (map fst ?d))"
  assume a: "?d \<noteq> [] \<and> (\<forall>(p, q) \<in> set ?d. q < 0)"
  then obtain v where v: "(?m, v) \<in> set ?d" "dict_get ?d ?m = Inr v"
    using dict_get_key [OF min_key_in, of ?d] by blast
  from a v(1) have neg: "v < 0" by blast
  from a v(2) have "get_best_ask order_depth = Inr (Some ?m, Some v)"
    by (simp add: get_best_ask_def)
  moreover from a v(2) have "Util_get_best_ask order_depth = Inr (Some ?m, Some (- v))"
    by (simp add: Util_get_best_ask_def)
  ultimately show "\<exists>q. (?m, q) \<in> set ?d \<and> q < 0
      \<and> get_best_ask order_depth = Inr (Some ?m, Some q)
      \<and> Util_get_best_ask order_depth = Inr (Some ?m, Some (- q)) \<and> 0 < - q"
    using v(1) neg by auto
qed

theorem get_best_ask_min_price_witness:
  "sell_orders \<lparr>buy_orders = [], sell_orders = [(12, - 3), (10, - 5)]\<rparr> \<noteq> []
   \<and> list_all (\<lambda>(p, q). q < 0) (sell_orders \<lparr>buy_orders = [], sell_orders = [(12, - 3), (10, - 5)]\<rparr>)
   \<and> get_best_ask \<lparr>buy_orders = [], sell_orders = [(12, - 3), (10, - 5)]\<rparr> = Inr (Some 10, Some (- 5))
   \<and> Util_get_best_ask \<lparr>buy_orders = [], sell_orders = [(12, - 3), (10, - 5)]\<rparr> = Inr (Some 10, Some 5)
   \<and> get_best_ask \<lparr>buy_orders = [(9, 1)], sell_orders = []\<rparr> = Inr (None, None)"
  using get_best_ask_min_price [of "\<lparr>buy_orders = [], sell_orders = [(12, - 3), (10, - 5)]\<rparr>"]
    get_best_ask_min_price [of "\<lparr>buy_orders = [(9, 1)], sell_orders = []\<rparr>"]
  by auto

text \<open>
  The claim as stated fails for \<^verbatim>\<open>get_best_ask\<close> of trader.py: on the sell side
  \<^verbatim>\<open>{10: -5}\<close> the quantity returned is \<open>-5\<close>, not the magnitude 5.
\<close>

theorem get_best_ask_counterexample:
  "get_best_ask \<lparr>buy_orders = [], sell_orders = [(10, - 5)]\<rparr> = Inr (Some 10, Some (- 5))
   \<and> \<not> (0::int) < - 5"
  by (simp add: get_best_ask_def dict_get_def)

section \<open>Order builders never skip an order\<close>

text \<open>
  Claim C2, as the code has it. Every call of \<^verbatim>\<open>place_buy_order\<close> and of
  \<^verbatim>\<open>place_sell_order\<close> appends exactly one order, whose magnitude is the absolute
  value of the requested quantity: never negative, and zero when the requested
  quantity is zero.
\<close>

theorem place_order_appends_one:
  "place_buy_order product orders price quantity = orders @ [Order product price \<bar>quantity\<bar>]
   \<and> place_sell_order product orders price quantity = orders @ [Order product price (- \<bar>quantity\<bar>)]
   \<and> 0 \<le> order_quantity (last (place_buy_order product orders price quantity))
   \<and> order_quantity (last (place_sell_order product orders price quantity)) \<le> 0
   \<and> place_buy_order product orders price 0 = orders @ [Order product price 0]
   \<and> place_sell_order product orders price 0 = orders @ [Order product price 0]"
  by (simp add: place_buy_order_def place_sell_order_def)

text \<open>
  The claim as stated fails: a requested quantity of zero still appends an order, of
  zero magnitude, and \<^verbatim>\<open>run\<close> emits such an order for PEARLS when the position is
  at the limit, so that the buy headroom is zero.
\<close>

theorem place_order_zero_counterexample:
  "place_buy_order ''PEARLS'' [] 10 0 = [Order ''PEARLS'' 10 0]
   \<and> place_buy_order ''PEARLS'' [] 10 0 \<noteq> []
   \<and> place_sell_order ''PEARLS'' [] 10 0 = [Order ''PEARLS'' 10 0]
   \<and> place_sell_order ''PEARLS'' [] 10 0 \<noteq> []
   \<and> run Trader_init
        \<lparr>order_depths = [(''PEARLS'', \<lparr>buy_orders = [(10, 1)], sell_orders = [(9, - 1)]\<rparr>)],
         position = [''PEARLS'' \<mapsto> 20]\<rparr>
     = Inr (Trader_init\<lparr>ask_price := [''PEARLS'' \<mapsto> 9], bid_price := [''PEARLS'' \<mapsto> 10]\<rparr>,
            [''PEARLS'' \<mapsto> [Order ''PEARLS'' 9 0, Order ''PEARLS'' 10 (- 40)]])"
  by (simp add: place_buy_order_def place_sell_order_def run_def run_body_def
      get_best_ask_def get_best_bid_def dict_get_def Trader_init_def)

section \<open>The buy sweep stops after one price level\<close>

text \<open>
  On every non-empty sell side the sweep returns after the lowest price level, with a
  single order for the smaller of the target and the volume resting there.
\<close>

lemma place_buy_orders_up_to_first_level:
  assumes "sell_orders od \<noteq> []"
  shows "\<exists>v. (Min (set (map fst (sell_orders od))), v) \<in> set (sell_orders od)
      \<and> place_buy_orders_up_to product orders quantity od =
          Inr (orders @ [Order product (Min (set (map fst (sell_orders od))))
                           (min \<bar>quantity\<bar> \<bar>v\<bar>)])"
proof -
  let ?d = "sell_orders od"
  let ?start = "Min (set (map fst ?d))"
  let ?finish = "Max (set (map fst ?d))"
  from dict_get_key [OF min_key_in [OF assms]] obtain v
    where v: "(?start, v) \<in> set ?d" "dict_get ?d ?start = Inr v"
    by blast
  have key: "?start \<in> set (map fst ?d)"
    by (rule min_key_in [OF assms])
  have "?start \<le> ?finish"
    using key by (simp add: Max_ge)
  then have range: "[?start..?finish] = ?start # [?start + 1..?finish]"
    by (rule upto_rec1)
  have "buy_orders_up_to_loop product ?d (?start # [?start + 1..?finish]) orders \<bar>quantity\<bar>
          = Inr (orders @ [Order product ?start (min \<bar>quantity\<bar> \<bar>v\<bar>)])"
    using key v(2) by (simp add: Let_def place_buy_order_def)
  with assms range v(1) show ?thesis
    by (auto simp: place_buy_orders_up_to_def Let_def)
qed

text \<open>
  Claim C3, evaluated on the code. On the sell side \<^verbatim>\<open>{10: 5, 11: 5, 12: 5}\<close> with
  the target quantity 8, \<^verbatim>\<open>place_buy_orders_up_to\<close> appends the single order
  (price 10, quantity 5) and returns: the assignment
  \<^verbatim>\<open>quantity = min(quantity, best_ask_volume)\<close> replaces the remaining target by the
  clipped quantity, so the subtraction that follows never leaves a positive rest.
\<close>

theorem place_buy_orders_up_to_one_level:
  "place_buy_orders_up_to ''BANANAS'' [] 8
     \<lparr>buy_orders = [], sell_orders = [(10, 5), (11, 5), (12, 5)]\<rparr>
   = Inr [Order ''BANANAS'' 10 5]"
  by (simp add: place_buy_orders_up_to_def dict_get_def place_buy_order_def upto.simps)

section \<open>Crossover signals\<close>


lemma py_index_last: "xs \<noteq> [] \<Longrightarrow> py_index xs (- 1) = Inr (last xs)"
proof -
  assume ne: "xs \<noteq> []"
  then have len: "0 < length xs" by simp
  then have "nat (int (length xs) + - 1) = length xs - 1" by arith
  with ne len show ?thesis
    by (simp add: py_index_def last_conv_nth)
qed

lemma py_index_before_last: "2 \<le> length xs \<Longrightarrow> py_index xs (- 2) = Inr (last (butlast xs))"
proof -
  assume len: "2 \<le> length xs"
  then have ne: "butlast xs \<noteq> []"
    by (cases xs) (auto split: if_splits)
  from len have idx: "nat (int (length xs) + - 2) = length xs - 2" by arith
  from len have "last (butlast xs) = xs ! (length xs - 2)"
    using ne by (simp add: last_conv_nth nth_butlast numeral_2_eq_2)
  with len idx show ?thesis
    by (simp add: py_index_def)
qed

lemma get_crossover_data_last:
  "2 \<le> length large \<Longrightarrow> 2 \<le> length small \<Longrightarrow>
   get_crossover_data large small =
     Inr (last large, last small, last (butlast large), last (butlast small))"
proof -
  assume l: "2 \<le> length large" and s: "2 \<le> length small"
  then have "large \<noteq> []" "small \<noteq> []" by auto
  then show ?thesis
    using l s by (simp add: get_crossover_data_def py_index_last py_index_before_last)
qed

text \<open>
  Claim C7. With fewer recorded averages than the small window, both signals return
  False. Past that gate, on series of length at least 2, the buy signal is exactly
  "current long below current short and previous long above previous short" and the
  sell signal exactly the mirror image, with strict comparisons, so neither fires
  when the current or the previous averages are equal.
\<close>

theorem crossover_signals:
  assumes "large_ask_averages self product = Some large_ask"
    and "small_ask_averages self product = Some small_ask"
    and "large_bid_averages self product = Some large_bid"
    and "small_bid_averages self product = Some small_bid"
  shows "(int (length large_ask) < window_size_small self \<longrightarrow> buy_signal self product = Inr False)
    \<and> (int (length large_bid) < window_size_small self \<longrightarrow> sell_signal self product = Inr False)
    \<and> (window_size_small self \<le> int (length large_ask) \<and> 2 \<le> length large_ask \<and> 2 \<le> length small_ask \<longrightarrow>
         buy_signal self product =
           Inr (last large_ask < last small_ask \<and> last (butlast large_ask) > last (butlast small_ask)))
    \<and> (window_size_small self \<le> int (length large_bid) \<and> 2 \<le> length large_bid \<and> 2 \<le> length small_bid \<longrightarrow>
         sell_signal self product =
           Inr (last large_bid > last small_bid \<and> last (butlast large_bid) < last (butlast small_bid)))"
  using assms
  by (simp add: buy_signal_def sell_signal_def get_crossover_data_last)

theorem crossover_signals_witness:
  "buy_signal (Trader_init\<lparr>large_ask_averages := [''BANANAS'' \<mapsto> replicate 98 10 @ [12, 8]],
       small_ask_averages := [''BANANAS'' \<mapsto> replicate 98 10 @ [8, 12]],
       large_bid_averages := [''BANANAS'' \<mapsto> replicate 98 10 @ [10, 10]],
       small_bid_averages := [''BANANAS'' \<mapsto> replicate 98 10 @ [10, 10]]\<rparr>) ''BANANAS'' = Inr True
   \<and> sell_signal (Trader_init\<lparr>large_ask_averages := [''BANANAS'' \<mapsto> replicate 98 10 @ [12, 8]],
       small_ask_averages := [''BANANAS'' \<mapsto> replicate 98 10 @ [8, 12]],
       large_bid_averages := [''BANANAS'' \<mapsto> replicate 98 10 @ [10, 10]],
       small_bid_averages := [''BANANAS'' \<mapsto> replicate 98 10 @ [10, 10]]\<rparr>) ''BANANAS'' = Inr False
   \<and> buy_signal (Trader_init\<lparr>large_ask_averages := [''BANANAS'' \<mapsto> [12, 8]],
       small_ask_averages := [''BANANAS'' \<mapsto> [8, 12]],
       large_bid_averages := [''BANANAS'' \<mapsto> [8, 12]],
       small_bid_averages := [''BANANAS'' \<mapsto> [12, 8]]\<rparr>) ''BANANAS'' = Inr False"
  using crossover_signals [of "Trader_init\<lparr>large_ask_averages := [''BANANAS'' \<mapsto> replicate 98 10 @ [12, 8]],
       small_ask_averages := [''BANANAS'' \<mapsto> replicate 98 10 @ [8, 12]],
       large_bid_averages := [''BANANAS'' \<mapsto> replicate 98 10 @ [10, 10]],
       small_bid_averages := [''BANANAS'' \<mapsto> replicate 98 10 @ [10, 10]]\<rparr>" "''BANANAS''"
       "replicate 98 10 @ [12, 8]" "replicate 98 10 @ [8, 12]" "replicate 98 10 @ [10, 10]" "replicate 98 10 @ [10, 10]"]
    crossover_signals [of "Trader_init\<lparr>large_ask_averages := [''BANANAS'' \<mapsto> [12, 8]],
       small_ask_averages := [''BANANAS'' \<mapsto> [8, 12]],
       large_bid_averages := [''BANANAS'' \<mapsto> [8, 12]],
       small_bid_averages := [''BANANAS'' \<mapsto> [12, 8]]\<rparr>" "''BANANAS''"
       "[12, 8]" "[8, 12]" "[8, 12]" "[12, 8]"]
  by (simp add: Trader_init_def butlast_append)

section \<open>Warm-up of the moving averages\<close>







section \<open>One iteration of the loop of run\<close>

lemma order_by_vwap_orders:
  "order_by_vwap self product prices large small book cond place orders = Inr (p', l', s', orders')
   \<Longrightarrow> orders' = orders \<or> orders' = place orders"
  unfolding order_by_vwap_def Let_def
  by (auto split: sum.splits option.splits bool.splits if_splits)

lemma run_body_best:
  assumes "run_body self state product order_depth = Inr r"
  shows "\<exists>a av b bv. get_best_ask order_depth = Inr (Some a, Some av)
           \<and> get_best_bid order_depth = Inr (Some b, Some bv)"
proof -
  obtain x where x: "get_best_ask order_depth = Inr x"
    using assms unfolding run_body_def Let_def by (cases "get_best_ask order_depth") auto
  obtain y where y: "get_best_bid order_depth = Inr y"
    using assms x unfolding run_body_def Let_def
    by (cases "get_best_bid order_depth") (auto split: prod.splits)
  obtain a av where xa: "x = (a, av)" by (cases x)
  obtain b bv where yb: "y = (b, bv)" by (cases y)
  from assms x y xa yb have "av \<noteq> None" "bv \<noteq> None" "a \<noteq> None" "b \<noteq> None"
    unfolding run_body_def Let_def by (auto split: option.splits)
  with x y xa yb show ?thesis by auto
qed

lemma run_body_pearls:
  assumes "get_best_ask order_depth = Inr (Some a, Some av)"
    and "get_best_bid order_depth = Inr (Some b, Some bv)"
    and "plimit = (case position_limit self ''PEARLS'' of None \<Rightarrow> 0 | Some v \<Rightarrow> v)"
    and "ppos = (case position state ''PEARLS'' of None \<Rightarrow> 0 | Some v \<Rightarrow> v)"
    and "ask = min (case ask_price self ''PEARLS'' of None \<Rightarrow> a | Some x \<Rightarrow> x) a"
    and "bid = max (case bid_price self ''PEARLS'' of None \<Rightarrow> b | Some x \<Rightarrow> x) b"
  shows "run_body self state ''PEARLS'' order_depth =
           Inr (tightened self ''PEARLS'' a b,
                if ask < bid
                then [Order ''PEARLS'' ask \<bar>plimit - ppos\<bar>, Order ''PEARLS'' bid (- \<bar>plimit + ppos\<bar>)]
                else [])"
  using assms unfolding run_body_def tightened_def
  by (simp add: Let_def place_buy_order_def place_sell_order_def)

lemma run_body_other:
  assumes "get_best_ask order_depth = Inr (Some a, Some av)"
    and "get_best_bid order_depth = Inr (Some b, Some bv)"
    and "product \<noteq> ''PEARLS''" and "product \<noteq> ''BANANAS''"
  shows "run_body self state product order_depth = Inr (tightened self product a b, [])"
  using assms unfolding run_body_def tightened_def
  by (simp add: Let_def)

lemma run_body_bananas:
  assumes "run_body self state ''BANANAS'' order_depth = Inr (self', orders)"
    and "get_best_ask order_depth = Inr (Some a, Some av)"
    and "get_best_bid order_depth = Inr (Some b, Some bv)"
    and "plimit = (case position_limit self ''BANANAS'' of None \<Rightarrow> 0 | Some v \<Rightarrow> v)"
    and "ppos = (case position state ''BANANAS'' of None \<Rightarrow> 0 | Some v \<Rightarrow> v)"
    and "sell = Order ''BANANAS'' b (- \<bar>min bv (plimit + ppos)\<bar>)"
    and "buy = Order ''BANANAS'' a \<bar>min (- av) (plimit - ppos)\<bar>"
  shows "(orders = [] \<or> orders = [sell] \<or> orders = [buy] \<or> orders = [sell, buy])
      \<and> ask_price self' = ask_price (tightened self ''BANANAS'' a b)
      \<and> bid_price self' = bid_price (tightened self ''BANANAS'' a b)
      \<and> position_limit self' = position_limit self"
proof -
  let ?t = "tightened self ''BANANAS'' a b"
  let ?sellf = "\<lambda>orders. place_sell_order ''BANANAS'' orders b (min bv (plimit + ppos))"
  let ?buyf = "\<lambda>orders. place_buy_order ''BANANAS'' orders a (min (- av) (plimit - ppos))"
  let ?first = "order_by_vwap ?t ''BANANAS''
      (vwap_bid_prices ?t) (large_bid_averages ?t) (small_bid_averages ?t)
      (buy_orders order_depth)
      (\<lambda>large small. sell_signal (?t\<lparr>large_bid_averages := large, small_bid_averages := small\<rparr>) ''BANANAS'')
      ?sellf []"
  have eq: "run_body self state ''BANANAS'' order_depth =
    (case ?first of
       Inl e \<Rightarrow> Inl e
     | Inr (prices, large, small, orders) \<Rightarrow>
        (let self2 = ?t\<lparr>vwap_bid_prices := prices,
                          large_bid_averages := large, small_bid_averages := small\<rparr>
         in
         case order_by_vwap self2 ''BANANAS''
                (vwap_ask_prices self2) (large_ask_averages self2) (small_ask_averages self2)
                (sell_orders order_depth)
                (\<lambda>large small.
                   buy_signal (self2\<lparr>large_ask_averages := large, small_ask_averages := small\<rparr>) ''BANANAS'')
                ?buyf orders of
           Inl e \<Rightarrow> Inl e
         | Inr (prices, large, small, orders) \<Rightarrow>
             Inr (self2\<lparr>vwap_ask_prices := prices,
                       large_ask_averages := large, small_ask_averages := small\<rparr>, orders)))"
    using assms(2-5) unfolding run_body_def tightened_def Let_def
    by (simp split: sum.splits prod.splits)
  from assms(1) eq obtain p1 l1 s1 o1 where first: "?first = Inr (p1, l1, s1, o1)"
    by (cases ?first) auto
  let ?self2 = "?t\<lparr>vwap_bid_prices := p1, large_bid_averages := l1, small_bid_averages := s1\<rparr>"
  let ?second = "order_by_vwap ?self2 ''BANANAS''
                (vwap_ask_prices ?self2) (large_ask_averages ?self2) (small_ask_averages ?self2)
                (sell_orders order_depth)
                (\<lambda>large small.
                   buy_signal (?self2\<lparr>large_ask_averages := large, small_ask_averages := small\<rparr>) ''BANANAS'')
                ?buyf o1"
  from assms(1) eq first obtain p2 l2 s2 o2 where second: "?second = Inr (p2, l2, s2, o2)"
    by (cases ?second) (auto simp: Let_def)
  from assms(1) eq first second
  have res: "self' = ?self2\<lparr>vwap_ask_prices := p2, large_ask_averages := l2, small_ask_averages := s2\<rparr>"
      "orders = o2"
    by (simp_all add: Let_def)
  from order_by_vwap_orders [OF first] have o1: "o1 = [] \<or> o1 = ?sellf []" .
  from order_by_vwap_orders [OF second] have o2: "o2 = o1 \<or> o2 = ?buyf o1" .
  from o1 o2 res(2) assms(6,7)
  have "orders = [] \<or> orders = [sell] \<or> orders = [buy] \<or> orders = [sell, buy]"
    by (auto simp: place_buy_order_def place_sell_order_def)
  moreover from res(1) have "ask_price self' = ask_price ?t" "bid_price self' = bid_price ?t"
    "position_limit self' = position_limit self"
    by (simp_all add: tightened_def)
  ultimately show ?thesis by blast
qed

lemma tightened_simps:
  "ask_price (tightened self product a b) =
     (ask_price self)(product \<mapsto> min (case ask_price self product of None \<Rightarrow> a | Some x \<Rightarrow> x) a)"
  "bid_price (tightened self product a b) =
     (bid_price self)(product \<mapsto> max (case bid_price self product of None \<Rightarrow> b | Some x \<Rightarrow> x) b)"
  "position_limit (tightened self product a b) = position_limit self"
  by (simp_all add: tightened_def)

text \<open>What one successful iteration leaves in the trader and in the order list.\<close>

lemma run_body_result:
  assumes "run_body self state product order_depth = Inr (self', orders)"
    and "plimit = (case position_limit self product of None \<Rightarrow> 0 | Some v \<Rightarrow> v)"
    and "ppos = (case position state product of None \<Rightarrow> 0 | Some v \<Rightarrow> v)"
  shows "\<exists>a av b bv ask bid.
      get_best_ask order_depth = Inr (Some a, Some av)
    \<and> get_best_bid order_depth = Inr (Some b, Some bv)
    \<and> ask = min (case ask_price self product of None \<Rightarrow> a | Some x \<Rightarrow> x) a
    \<and> bid = max (case bid_price self product of None \<Rightarrow> b | Some x \<Rightarrow> x) b
    \<and> ask_price self' = (ask_price self)(product \<mapsto> ask)
    \<and> bid_price self' = (bid_price self)(product \<mapsto> bid)
    \<and> position_limit self' = position_limit self
    \<and> (product = ''PEARLS'' \<longrightarrow>
          orders = (if ask < bid
                    then [Order product ask \<bar>plimit - ppos\<bar>, Order product bid (- \<bar>plimit + ppos\<bar>)]
                    else []))
    \<and> (product = ''BANANAS'' \<longrightarrow>
          orders = [] \<or> orders = [Order product b (- \<bar>min bv (plimit + ppos)\<bar>)]
          \<or> orders = [Order product a \<bar>min (- av) (plimit - ppos)\<bar>]
          \<or> orders = [Order product b (- \<bar>min bv (plimit + ppos)\<bar>),
                       Order product a \<bar>min (- av) (plimit - ppos)\<bar>])
    \<and> (product \<noteq> ''PEARLS'' \<and> product \<noteq> ''BANANAS'' \<longrightarrow> orders = [])"
proof -
  from run_body_best [OF assms(1)] obtain a av b bv
    where best: "get_best_ask order_depth = Inr (Some a, Some av)"
      "get_best_bid order_depth = Inr (Some b, Some bv)"
    by blast
  let ?ask = "min (case ask_price self product of None \<Rightarrow> a | Some x \<Rightarrow> x) a"
  let ?bid = "max (case bid_price self product of None \<Rightarrow> b | Some x \<Rightarrow> x) b"
  consider (pearls) "product = ''PEARLS''" | (bananas) "product = ''BANANAS''"
    | (other) "product \<noteq> ''PEARLS''" "product \<noteq> ''BANANAS''"
    by blast
  then have "ask_price self' = (ask_price self)(product \<mapsto> ?ask)
    \<and> bid_price self' = (bid_price self)(product \<mapsto> ?bid)
    \<and> position_limit self' = position_limit self
    \<and> (product = ''PEARLS'' \<longrightarrow>
          orders = (if ?ask < ?bid
                    then [Order product ?ask \<bar>plimit - ppos\<bar>, Order product ?bid (- \<bar>plimit + ppos\<bar>)]
                    else []))
    \<and> (product = ''BANANAS'' \<longrightarrow>
          orders = [] \<or> orders = [Order product b (- \<bar>min bv (plimit + ppos)\<bar>)]
          \<or> orders = [Order product a \<bar>min (- av) (plimit - ppos)\<bar>]
          \<or> orders = [Order product b (- \<bar>min bv (plimit + ppos)\<bar>),
                       Order product a \<bar>min (- av) (plimit - ppos)\<bar>])
    \<and> (product \<noteq> ''PEARLS'' \<and> product \<noteq> ''BANANAS'' \<longrightarrow> orders = [])"
  proof cases
    case pearls
    let ?a = "min (case ask_price self ''PEARLS'' of None \<Rightarrow> a | Some x \<Rightarrow> x) a"
    let ?b = "max (case bid_price self ''PEARLS'' of None \<Rightarrow> b | Some x \<Rightarrow> x) b"
    from assms pearls
    have run: "run_body self state ''PEARLS'' order_depth = Inr (self', orders)"
      and lp: "plimit = (case position_limit self ''PEARLS'' of None \<Rightarrow> 0 | Some v \<Rightarrow> v)"
      and pp: "ppos = (case position state ''PEARLS'' of None \<Rightarrow> 0 | Some v \<Rightarrow> v)"
      by simp_all
    from run run_body_pearls [OF best lp pp refl refl]
    have "self' = tightened self ''PEARLS'' a b"
      "orders = (if ?a < ?b
                 then [Order ''PEARLS'' ?a \<bar>plimit - ppos\<bar>, Order ''PEARLS'' ?b (- \<bar>plimit + ppos\<bar>)]
                 else [])"
      by simp_all
    then show ?thesis
      unfolding pearls by (simp add: tightened_simps)
  next
    case bananas
    from run_body_bananas [OF _ best, of self state self' orders plimit ppos] assms bananas
    show ?thesis by (simp add: tightened_simps)
  next
    case other
    from assms(1) run_body_other [OF best other, of self state]
    have "self' = tightened self product a b" "orders = []" by simp_all
    with other show ?thesis by (simp add: tightened_simps)
  qed
  with best show ?thesis by blast
qed

section \<open>The loop of run and sequences of ticks\<close>



lemma run_body_tightens:
  assumes "run_body self state product order_depth = Inr (self', orders)"
  shows "tightens self self'"
proof -
  from run_body_result [OF assms refl refl] obtain a b
    where ask: "ask_price self' = (ask_price self)
        (product \<mapsto> min (case ask_price self product of None \<Rightarrow> a | Some x \<Rightarrow> x) a)"
      and bid: "bid_price self' = (bid_price self)
        (product \<mapsto> max (case bid_price self product of None \<Rightarrow> b | Some x \<Rightarrow> x) b)"
      and lim: "position_limit self' = position_limit self"
    by blast
  show ?thesis
    unfolding tightens_def ask bid lim by auto
qed


lemma run_loop_Cons:
  assumes "run_loop self state ((product, order_depth) # rest) result last_orders = Inr r"
  obtains self1 orders where "run_body self state product order_depth = Inr (self1, orders)"
    and "run_loop self1 state rest (result(product \<mapsto> orders)) (Some orders) = Inr r"
  using assms by (cases "run_body self state product order_depth") auto



text \<open>
  Every order list in the result was produced by one iteration, started in a state
  with the position limits of the initial one.
\<close>

lemma run_loop_result:
  "run_loop self state items result last_orders = Inr (self', result', last') \<Longrightarrow>
   result' p = Some orders \<Longrightarrow>
   result p = Some orders
   \<or> (\<exists>self0 self1 od. (p, od) \<in> set items
        \<and> run_body self0 state p od = Inr (self1, orders)
        \<and> position_limit self0 = position_limit self)"
proof (induction items arbitrary: self result last_orders)
  case Nil
  then show ?case by simp
next
  case (Cons it items)
  obtain product order_depth where it: "it = (product, order_depth)" by (cases it)
  from Cons.prems(1) [unfolded it] obtain self1 orders1
    where body: "run_body self state product order_depth = Inr (self1, orders1)"
      and rest: "run_loop self1 state items (result(product \<mapsto> orders1)) (Some orders1)
                   = Inr (self', result', last')"
    by (rule run_loop_Cons)
  from run_body_tightens [OF body] have lim: "position_limit self1 = position_limit self"
    by (simp add: tightens_def)
  from Cons.IH [OF rest Cons.prems(2)]
  consider (old) "(result(product \<mapsto> orders1)) p = Some orders"
    | (later) self0 self2 od where "(p, od) \<in> set items"
        "run_body self0 state p od = Inr (self2, orders)"
        "position_limit self0 = position_limit self1"
    by blast
  then show ?case
  proof cases
    case old
    show ?thesis
    proof (cases "p = product")
      case True
      with old have "orders1 = orders" by simp
      with body True it show ?thesis by auto
    next
      case False
      with old show ?thesis by simp
    qed
  next
    case later
    with lim it show ?thesis by auto
  qed
qed


lemma run_Inr:
  assumes "run self state = Inr (self', result)"
  obtains last_orders where
    "run_loop self state (order_depths state) Map.empty None = Inr (self', result, last_orders)"
  using assms unfolding run_def
  by (auto split: sum.splits option.splits)




section \<open>An empty side of the book\<close>

text \<open>
  Claim C4, evaluated on the code. On a snapshot whose sell side is empty,
  \<^verbatim>\<open>get_best_ask\<close> returns the absent pair and \<^verbatim>\<open>Trader.run\<close> raises
  \<^verbatim>\<open>TypeError\<close> at line 40, where it negates the absent volume; with an empty
  buy side it raises at line 41. The functions \<^verbatim>\<open>get_spread\<close> and
  \<^verbatim>\<open>get_mid_price\<close> of the same file test for \<^verbatim>\<open>None\<close>; \<^verbatim>\<open>run\<close> does not.
\<close>

theorem run_empty_side_raises:
  "get_best_ask \<lparr>buy_orders = [(10, 1)], sell_orders = []\<rparr> = Inr (None, None)
   \<and> run Trader_init
        \<lparr>order_depths = [(''PEARLS'', \<lparr>buy_orders = [(10, 1)], sell_orders = []\<rparr>)],
         position = Map.empty\<rparr> = Inl TypeError
   \<and> run Trader_init
        \<lparr>order_depths = [(''BANANAS'', \<lparr>buy_orders = [], sell_orders = [(12, - 3)]\<rparr>)],
         position = Map.empty\<rparr> = Inl TypeError"
  by (simp add: run_def run_body_def get_best_ask_def get_best_bid_def dict_get_def)

section \<open>The ask floor and the bid ceiling\<close>



section \<open>The crossed condition of the fair-value product\<close>



section \<open>Position limits\<close>

lemma get_best_ask_mem:
  assumes "get_best_ask od = Inr (Some a, Some av)"
  shows "(a, av) \<in> set (sell_orders od)"
proof -
  from assms have ne: "sell_orders od \<noteq> []"
    by (auto simp: get_best_ask_def)
  with assms have "dict_get (sell_orders od) a = Inr av"
    by (auto simp: get_best_ask_def Let_def split: sum.splits)
  then have "map_of (sell_orders od) a = Some av"
    by (simp add: dict_get_def split: option.splits)
  then show ?thesis by (rule map_of_SomeD)
qed

lemma get_best_bid_mem:
  assumes "get_best_bid od = Inr (Some b, Some bv)"
  shows "(b, bv) \<in> set (buy_orders od)"
proof -
  from assms have ne: "buy_orders od \<noteq> []"
    by (auto simp: get_best_bid_def)
  with assms have "dict_get (buy_orders od) b = Inr bv"
    by (auto simp: get_best_bid_def Let_def split: sum.splits)
  then have "map_of (buy_orders od) b = Some bv"
    by (simp add: dict_get_def split: option.splits)
  then show ?thesis by (rule map_of_SomeD)
qed

text \<open>
  A list of at most one buy and one sell order, each within its headroom, keeps every
  selection of its orders inside the limits.
\<close>

lemma orders_within_limits:
  fixes plimit ppos :: int
  assumes "orders = [] \<or> orders = [s] \<or> orders = [t] \<or> orders = [s, t] \<or> orders = [t, s]"
    and "0 \<le> order_quantity t" and "order_quantity t \<le> plimit - ppos"
    and "order_quantity s \<le> 0" and "- order_quantity s \<le> plimit + ppos"
    and "\<bar>ppos\<bar> \<le> plimit"
  shows "(\<forall>ord \<in> set orders.
            (0 < order_quantity ord \<longrightarrow> order_quantity ord \<le> plimit - ppos)
          \<and> (order_quantity ord < 0 \<longrightarrow> - order_quantity ord \<le> plimit + ppos))
       \<and> (\<forall>sub \<in> set (subseqs orders).
            - plimit \<le> ppos + sum_list (map order_quantity sub)
          \<and> ppos + sum_list (map order_quantity sub) \<le> plimit)"
  using assms by (elim disjE) (auto simp: Let_def)

text \<open>
  Claim C1. Take a tick on which \<^verbatim>\<open>run\<close> returns, a snapshot that follows the
  sign convention of the book (buy quantities positive, sell quantities negative), and
  a product whose position is within its limit. Then every buy order emitted for the
  product has quantity at most limit minus position, every sell order has magnitude at
  most limit plus position, and whichever of the emitted orders are executed in full,
  the position stays between minus the limit and the limit.
\<close>

theorem run_respects_headroom:
  assumes "run self state = Inr (self', result)"
    and "result product = Some orders"
    and "\<forall>(sym, od) \<in> set (order_depths state).
           (\<forall>(p, q) \<in> set (buy_orders od). 0 < q) \<and> (\<forall>(p, q) \<in> set (sell_orders od). q < 0)"
    and "plimit = (case position_limit self product of None \<Rightarrow> 0 | Some v \<Rightarrow> v)"
    and "ppos = (case position state product of None \<Rightarrow> 0 | Some v \<Rightarrow> v)"
    and "\<bar>ppos\<bar> \<le> plimit"
  shows "(\<forall>ord \<in> set orders.
            (0 < order_quantity ord \<longrightarrow> order_quantity ord \<le> plimit - ppos)
          \<and> (order_quantity ord < 0 \<longrightarrow> - order_quantity ord \<le> plimit + ppos))
       \<and> (\<forall>sub \<in> set (subseqs orders).
            - plimit \<le> ppos + sum_list (map order_quantity sub)
          \<and> ppos + sum_list (map order_quantity sub) \<le> plimit)"
proof -
  from assms(1) obtain last_orders
    where loop: "run_loop self state (order_depths state) Map.empty None
                   = Inr (self', result, last_orders)"
    by (rule run_Inr)
  from run_loop_result [OF loop assms(2)] obtain self0 self1 od
    where mem: "(product, od) \<in> set (order_depths state)"
      and body: "run_body self0 state product od = Inr (self1, orders)"
      and lim: "position_limit self0 = position_limit self"
    by auto
  from assms(4) lim
  have pl: "plimit = (case position_limit self0 product of None \<Rightarrow> 0 | Some v \<Rightarrow> v)"
    by simp
  from run_body_result [OF body pl assms(5)] obtain a av b bv ask bid
    where best: "get_best_ask od = Inr (Some a, Some av)" "get_best_bid od = Inr (Some b, Some bv)"
      and pearls: "product = ''PEARLS'' \<longrightarrow>
          orders = (if ask < bid
                    then [Order product ask \<bar>plimit - ppos\<bar>, Order product bid (- \<bar>plimit + ppos\<bar>)]
                    else [])"
      and bananas: "product = ''BANANAS'' \<longrightarrow>
          orders = [] \<or> orders = [Order product b (- \<bar>min bv (plimit + ppos)\<bar>)]
          \<or> orders = [Order product a \<bar>min (- av) (plimit - ppos)\<bar>]
          \<or> orders = [Order product b (- \<bar>min bv (plimit + ppos)\<bar>),
                       Order product a \<bar>min (- av) (plimit - ppos)\<bar>]"
      and other: "product \<noteq> ''PEARLS'' \<and> product \<noteq> ''BANANAS'' \<longrightarrow> orders = []"
    by blast
  from assms(3) mem get_best_ask_mem [OF best(1)] get_best_bid_mem [OF best(2)]
  have signs: "av < 0" "0 < bv"
    by blast+
  from assms(6) have room: "0 \<le> plimit - ppos" "0 \<le> plimit + ppos"
    by linarith+
  consider (p) "product = ''PEARLS''" | (b) "product = ''BANANAS''"
    | (o) "product \<noteq> ''PEARLS''" "product \<noteq> ''BANANAS''"
    by blast
  then show ?thesis
  proof cases
    case p
    let ?t = "Order product ask \<bar>plimit - ppos\<bar>"
    let ?s = "Order product bid (- \<bar>plimit + ppos\<bar>)"
    from p pearls have "orders = [] \<or> orders = [?s] \<or> orders = [?t] \<or> orders = [?s, ?t]
        \<or> orders = [?t, ?s]"
      by (simp split: if_splits)
    then show ?thesis
    proof (rule orders_within_limits)
      show "0 \<le> order_quantity ?t" by simp
      show "order_quantity ?t \<le> plimit - ppos" using room by simp
      show "order_quantity ?s \<le> 0" by simp
      show "- order_quantity ?s \<le> plimit + ppos" using room by simp
      show "\<bar>ppos\<bar> \<le> plimit" by (rule assms(6))
    qed
  next
    case b
    let ?t = "Order product a \<bar>min (- av) (plimit - ppos)\<bar>"
    let ?s = "Order product b (- \<bar>min bv (plimit + ppos)\<bar>)"
    from b bananas have "orders = [] \<or> orders = [?s] \<or> orders = [?t] \<or> orders = [?s, ?t]
        \<or> orders = [?t, ?s]"
      by blast
    then show ?thesis
    proof (rule orders_within_limits)
      show "0 \<le> order_quantity ?t" by simp
      show "order_quantity ?t \<le> plimit - ppos" using signs room by simp
      show "order_quantity ?s \<le> 0" by simp
      show "- order_quantity ?s \<le> plimit + ppos" using signs room by simp
      show "\<bar>ppos\<bar> \<le> plimit" by (rule assms(6))
    qed
  next
    case o
    with other have "orders = []" by simp
    with assms(6) show ?thesis by auto
  qed
qed

theorem run_respects_headroom_witness:
  "run (Trader_init\<lparr>ask_price := [''PEARLS'' \<mapsto> 9], bid_price := [''PEARLS'' \<mapsto> 10]\<rparr>)
       \<lparr>order_depths = [(''PEARLS'', \<lparr>buy_orders = [(7, 1)], sell_orders = [(12, - 1)]\<rparr>)],
        position = [''PEARLS'' \<mapsto> 5]\<rparr>
     = Inr (Trader_init\<lparr>ask_price := [''PEARLS'' \<mapsto> 9], bid_price := [''PEARLS'' \<mapsto> 10]\<rparr>,
            [''PEARLS'' \<mapsto> [Order ''PEARLS'' 9 15, Order ''PEARLS'' 10 (- 25)]])
   \<and> \<bar>5::int\<bar> \<le> 20
   \<and> (15::int) \<le> 20 - 5 \<and> (25::int) \<le> 20 + 5
   \<and> list_all (\<lambda>sub. - 20 \<le> 5 + sum_list (map order_quantity sub)
                     \<and> 5 + sum_list (map order_quantity sub) \<le> 20)
        (subseqs [Order ''PEARLS'' 9 15, Order ''PEARLS'' 10 (- 25)])"
proof -
  let ?W = "Trader_init\<lparr>ask_price := [''PEARLS'' \<mapsto> 9], bid_price := [''PEARLS'' \<mapsto> 10]\<rparr>"
  let ?od = "\<lparr>buy_orders = [(7, 1)], sell_orders = [(12, - 1)]\<rparr>"
  let ?s = "\<lparr>order_depths = [(''PEARLS'', ?od)], position = [''PEARLS'' \<mapsto> 5]\<rparr>"
  let ?orders = "[Order ''PEARLS'' 9 15, Order ''PEARLS'' 10 (- 25)]"
  have best: "get_best_ask ?od = Inr (Some 12, Some (- 1))" "get_best_bid ?od = Inr (Some 7, Some 1)"
    by (simp_all add: get_best_ask_def get_best_bid_def dict_get_def)
  have r: "run ?W ?s = Inr (?W, [''PEARLS'' \<mapsto> ?orders])"
    by (simp add: run_def run_body_def best Trader_init_def place_buy_order_def place_sell_order_def)
  have conv: "\<forall>(sym, od) \<in> set (order_depths ?s).
           (\<forall>(p, q) \<in> set (buy_orders od). 0 < q) \<and> (\<forall>(p, q) \<in> set (sell_orders od). q < 0)"
    by simp
  have res: "[''PEARLS'' \<mapsto> ?orders] ''PEARLS'' = Some ?orders"
    by simp
  from run_respects_headroom [OF r res conv, of 20 5] r
  show ?thesis by (simp add: Trader_init_def Let_def)
qed

end
